theory Spec2Isabelle
  imports Main "HOL-Library.AList"
begin

section \<open>Python values and exceptions\<close>

text \<open>
  The values that occur in configuration dictionaries and in the JSON briefing. A Python
  \<open>dict\<close> keeps insertion order, so it is an association list: \<open>d.get(k)\<close> is
  \<open>map_of d k\<close> and \<open>d[k] = v\<close> is \<open>AList.update k v d\<close> (replace in place, or
  append). A \<open>str\<close> is the list of its UTF-8 bytes, so \<open>s.encode("utf-8")\<close> is the
  string itself. \<open>PyTemplate src\<close> is an instance of \<open>template.Template\<close>.
\<close>

datatype py_value =
    PyNone
  | PyStr string
  | PyInt int
  | PyTemplate string
  | PyList "py_value list"
  | PyDict "(string \<times> py_value) list"

type_synonym py_dict = "(string \<times> py_value) list"

text \<open>
  Exceptions are values, one constructor per raise site of the two modules.
  \<open>Propagated n\<close> is the exception, of class name \<open>n\<close>, that a collaborator outside
  these modules raised and that passes through unchanged: an exception is told apart by
  the place that raised it.
\<close>

datatype error =
    ValueError string
  | PipelineNotFound
  | KeyError string
  | AttributeError string
  | Propagated string

section \<open>The Assist pipeline integration\<close>

subsection \<open>Data of the pipeline module\<close>

text \<open>
  Modelled from the spec: \<open>PipelineStage\<close> is declared in \<open>pipeline.py\<close>, which is not
  among the sources. The spec gives the ordered enum WAKE_WORD, STT, INTENT, TTS, and a
  run executes the stages of the inclusive range from its start stage to its end stage.
\<close>

datatype PipelineStage = WAKE_WORD | STT | INTENT | TTS

text \<open>Modelled from the spec: the position of a stage in the order of \<open>PipelineStage\<close>.\<close>

fun stage_index :: "PipelineStage \<Rightarrow> nat" where
  "stage_index WAKE_WORD = 0"
| "stage_index STT = 1"
| "stage_index INTENT = 2"
| "stage_index TTS = 3"

text \<open>Modelled from the spec: a stage is executed when it lies in the inclusive range.\<close>

definition stage_in_range :: "PipelineStage \<Rightarrow> PipelineStage \<Rightarrow> PipelineStage \<Rightarrow> bool" where
  "stage_in_range start_st end_st s =
     (stage_index start_st \<le> stage_index s \<and> stage_index s \<le> stage_index end_st)"

text \<open>
  Modelled from the spec: a pipeline configuration (\<open>Pipeline\<close> of \<open>pipeline.py\<close>) has an
  identifier, a name, a language and one engine identifier per stage.
\<close>

record Pipeline =
  conf_id :: string
  conf_name :: string
  conf_language :: string
  wake_word_engine :: "string option"
  stt_engine :: "string option"
  conversation_engine :: "string option"
  tts_engine :: "string option"

text \<open>
  Modelled from the spec: the pipeline registry holds the stored configurations by
  identifier and, when one exists, the preferred default.
\<close>

record PipelineRegistry =
  configurations :: "(string \<times> Pipeline) list"
  default_configuration :: "Pipeline option"

text \<open>
  The Home Assistant instance, as far as these modules touch it: the \<open>hass.data\<close>
  dictionary and the pipeline registry.
\<close>

record HomeAssistant =
  data :: py_dict
  pipeline_registry :: PipelineRegistry

text \<open>
  Modelled from the spec: \<open>async_get_pipeline\<close> of \<open>pipeline.py\<close> is the registry's
  \<open>get(pipeline_id | None)\<close>. A given identifier is looked up among the stored
  configurations; without an identifier the default is taken; when nothing is found
  the lookup raises \<open>PipelineNotFound\<close>.
\<close>

definition async_get_pipeline :: "HomeAssistant \<Rightarrow> string option \<Rightarrow> error + Pipeline" where
  "async_get_pipeline hass pipeline_id =
     (case pipeline_id of
        Some i \<Rightarrow>
          (case map_of (configurations (pipeline_registry hass)) i of
             Some p \<Rightarrow> Inr p
           | None \<Rightarrow> Inl PipelineNotFound)
      | None \<Rightarrow>
          (case default_configuration (pipeline_registry hass) of
             Some p \<Rightarrow> Inr p
           | None \<Rightarrow> Inl PipelineNotFound))"

text \<open>
  Modelled from the spec: a \<open>PipelineRun\<close> owns the context, the resolved configuration,
  the stage range, the event callback, the audio and wake-word settings and the TTS
  output override. The fields are the keyword arguments \<open>build\<close> passes. The objects
  that are only handed on (context, callback, settings) are type parameters.
\<close>

record ('ctx, 'cb, 'wws, 'aus) PipelineRun =
  run_hass :: HomeAssistant
  run_context :: 'ctx
  run_pipeline :: Pipeline
  run_start_stage :: PipelineStage
  run_end_stage :: PipelineStage
  run_event_callback :: 'cb
  run_tts_audio_output :: "py_value option"
  run_wake_word_settings :: "'wws option"
  run_audio_settings :: 'aus

text \<open>
  Modelled from the spec: a \<open>PipelineInput\<close> is one request: optional conversation and
  device identifiers, the STT metadata, the audio stream, an optional wake-word phrase
  and the run.
\<close>

record ('ctx, 'cb, 'meta, 'stream, 'wws, 'aus) PipelineInput =
  input_conversation_id :: "string option"
  input_device_id :: "string option"
  input_stt_metadata :: 'meta
  input_stt_stream :: 'stream
  input_wake_word_phrase :: "string option"
  input_run :: "('ctx, 'cb, 'wws, 'aus) PipelineRun"

subsection \<open>async_setup\<close>

text \<open>
  The constants of \<open>const.py\<close> and the three set-up helpers are not among the sources:
  they are parameters. A helper takes the instance and returns the class name of the
  exception it raised, if any, and the instance as it left it.
\<close>

record setup_env =
  DOMAIN :: string
  DATA_CONFIG :: string
  DATA_LAST_WAKE_UP :: string
  async_setup_pipeline_store :: "HomeAssistant \<Rightarrow> string option \<times> HomeAssistant"
  async_run_migrations :: "HomeAssistant \<Rightarrow> string option \<times> HomeAssistant"
  async_register_websocket_api :: "HomeAssistant \<Rightarrow> string option \<times> HomeAssistant"

definition async_setup ::
  "setup_env \<Rightarrow> HomeAssistant \<Rightarrow> py_dict \<Rightarrow> (error + bool) \<times> HomeAssistant" where
  "async_setup env hass config =
     (let hass1 = hass\<lparr>data :=
            AList.update (DATA_CONFIG env)
              (case map_of config (DOMAIN env) of Some v \<Rightarrow> v | None \<Rightarrow> PyDict [])
              (data hass)\<rparr>;
          hass2 = hass1\<lparr>data := AList.update (DATA_LAST_WAKE_UP env) (PyDict []) (data hass1)\<rparr>
      in case async_setup_pipeline_store env hass2 of
           (Some e, hass3) \<Rightarrow> (Inl (Propagated e), hass3)
         | (None, hass3) \<Rightarrow>
             (case async_run_migrations env hass3 of
                (Some e, hass4) \<Rightarrow> (Inl (Propagated e), hass4)
              | (None, hass4) \<Rightarrow>
                  (case async_register_websocket_api env hass4 of
                     (Some e, hass5) \<Rightarrow> (Inl (Propagated e), hass5)
                   | (None, hass5) \<Rightarrow> (Inr True, hass5))))"

subsection \<open>AudioStreamPipelineBuilder\<close>

text \<open>
  The builder's attributes, under the names of the source (\<open>context\<close> is written
  \<open>context'\<close>). An attribute of type \<open>T | None\<close> is an option.
\<close>

record ('ctx, 'cb, 'meta, 'stream, 'wws, 'aus) AudioStreamPipelineBuilder =
  hass :: HomeAssistant
  context' :: "'ctx option"
  event_callback :: "'cb option"
  stt_metadata :: "'meta option"
  stt_stream :: "'stream option"
  wake_word_phrase :: "string option"
  pipeline_id :: "string option"
  conversation_id :: "string option"
  tts_audio_output :: "py_value option"
  wake_word_settings :: "'wws option"
  audio_settings :: "'aus option"
  device_id :: "string option"
  start_stage :: PipelineStage
  end_stage :: PipelineStage

text \<open>\<open>__init__\<close>: every parameter is None, the stage range is STT to TTS.\<close>

definition init ::
  "HomeAssistant \<Rightarrow> ('ctx, 'cb, 'meta, 'stream, 'wws, 'aus) AudioStreamPipelineBuilder" where
  "init h =
     \<lparr>hass = h,
      context' = None,
      event_callback = None,
      stt_metadata = None,
      stt_stream = None,
      wake_word_phrase = None,
      pipeline_id = None,
      conversation_id = None,
      tts_audio_output = None,
      wake_word_settings = None,
      audio_settings = None,
      device_id = None,
      start_stage = STT,
      end_stage = TTS\<rparr>"

text \<open>
  Truth value of an attribute that holds None or an object: None is false, and an
  object has the truth value its class gives it (\<open>__bool__\<close>, or \<open>__len__\<close> other than
  zero; true when the class defines neither). \<open>obj_bool\<close> is that truth value.
\<close>

definition truthy :: "('a \<Rightarrow> bool) \<Rightarrow> 'a option \<Rightarrow> bool" where
  "truthy obj_bool x = (case x of None \<Rightarrow> False | Some v \<Rightarrow> obj_bool v)"

text \<open>
  \<open>AudioSettings\<close> is a dataclass of plain fields, with neither \<open>__bool__\<close> nor
  \<open>__len__\<close>: every instance is true.
\<close>

definition settings_bool :: "'aus \<Rightarrow> bool" where
  "settings_bool a = True"

text \<open>Python's \<open>all\<close> over a list of truth values.\<close>

definition py_all :: "bool list \<Rightarrow> bool" where
  "py_all bs = list_all (\<lambda>b. b) bs"

text \<open>
  What \<open>build\<close> takes from outside, besides the registry. The four required attributes
  hold objects whose classes are not fixed here (a context, any callable, the STT
  metadata, any async iterable of bytes), so the truth value of each is a parameter:
  \<open>context_bool\<close>, \<open>callback_bool\<close>, \<open>metadata_bool\<close> and \<open>stream_bool\<close>. From
  \<open>pipeline.py\<close> come the default \<open>AudioSettings()\<close>, and \<open>PipelineInput.validate\<close>
  and \<open>PipelineInput.execute\<close>. The two methods are parameters: each takes the input
  and the world (everything a run can change or observe: audio consumed from the
  stream, events delivered to the callback, engines) and returns the class name of the
  exception it raised, if any, and the new world.
\<close>

record ('ctx, 'cb, 'meta, 'stream, 'wws, 'aus, 'w) pipeline_module =
  context_bool :: "'ctx \<Rightarrow> bool"
  callback_bool :: "'cb \<Rightarrow> bool"
  metadata_bool :: "'meta \<Rightarrow> bool"
  stream_bool :: "'stream \<Rightarrow> bool"
  AudioSettings_new :: 'aus
  validate ::
    "('ctx, 'cb, 'meta, 'stream, 'wws, 'aus) PipelineInput \<Rightarrow> 'w \<Rightarrow> string option \<times> 'w"
  execute ::
    "('ctx, 'cb, 'meta, 'stream, 'wws, 'aus) PipelineInput \<Rightarrow> 'w \<Rightarrow> string option \<times> 'w"

text \<open>
  The calls \<open>build\<close> makes into the pipeline module, in program order, with the object
  constructed or passed.
\<close>

datatype ('r, 'i) call =
    Call_async_get_pipeline "string option"
  | Call_AudioSettings
  | Call_PipelineRun 'r
  | Call_PipelineInput 'i
  | Call_validate 'i
  | Call_execute 'i

text \<open>
  Lines 124 to 134 of \<open>build\<close>: the \<open>PipelineRun\<close> constructed for a resolved
  configuration. \<open>self.audio_settings or AudioSettings()\<close> takes the builder's settings
  when they are true, that is when they are set, and the default otherwise. \<open>cast\<close>
  does nothing at run time; past the check of the required attributes they are not
  None.
\<close>

definition new_run ::
  "('ctx, 'cb, 'meta, 'stream, 'wws, 'aus, 'w) pipeline_module \<Rightarrow>
   ('ctx, 'cb, 'meta, 'stream, 'wws, 'aus) AudioStreamPipelineBuilder \<Rightarrow> Pipeline \<Rightarrow>
   ('ctx, 'cb, 'wws, 'aus) PipelineRun" where
  "new_run env self pipeline =
     \<lparr>run_hass = hass self,
      run_context = the (context' self),
      run_pipeline = pipeline,
      run_start_stage = start_stage self,
      run_end_stage = end_stage self,
      run_event_callback = the (event_callback self),
      run_tts_audio_output = tts_audio_output self,
      run_wake_word_settings = wake_word_settings self,
      run_audio_settings =
        (if truthy settings_bool (audio_settings self) then the (audio_settings self)
         else AudioSettings_new env)\<rparr>"

text \<open>Lines 135 to 142 of \<open>build\<close>: the \<open>PipelineInput\<close> that wraps the run.\<close>

definition new_input ::
  "('ctx, 'cb, 'meta, 'stream, 'wws, 'aus) AudioStreamPipelineBuilder \<Rightarrow>
   ('ctx, 'cb, 'wws, 'aus) PipelineRun \<Rightarrow>
   ('ctx, 'cb, 'meta, 'stream, 'wws, 'aus) PipelineInput" where
  "new_input self run =
     \<lparr>input_conversation_id = conversation_id self,
      input_device_id = device_id self,
      input_stt_metadata = the (stt_metadata self),
      input_stt_stream = the (stt_stream self),
      input_wake_word_phrase = wake_word_phrase self,
      input_run = run\<rparr>"

text \<open>
  \<open>build\<close>. The result is what the coroutine raised (\<open>Inl\<close>) or that it returned
  None (\<open>Inr ()\<close>), the calls it made, and the world afterwards. The arguments of
  \<open>PipelineRun(...)\<close> are evaluated left to right: the registry lookup comes before
  the default \<open>AudioSettings()\<close>, which is constructed only when no settings are set.
\<close>

definition build ::
  "('ctx, 'cb, 'meta, 'stream, 'wws, 'aus, 'w) pipeline_module \<Rightarrow>
   ('ctx, 'cb, 'meta, 'stream, 'wws, 'aus) AudioStreamPipelineBuilder \<Rightarrow> 'w \<Rightarrow>
   (error + unit) \<times>
   (('ctx, 'cb, 'wws, 'aus) PipelineRun,
    ('ctx, 'cb, 'meta, 'stream, 'wws, 'aus) PipelineInput) call list \<times> 'w" where
  "build env self w =
     (if \<not> py_all [truthy (context_bool env) (context' self),
                     truthy (callback_bool env) (event_callback self),
                     truthy (metadata_bool env) (stt_metadata self),
                     truthy (stream_bool env) (stt_stream self)]
      then (Inl (ValueError ''Missing required parameters''), [], w)
      else
        (case async_get_pipeline (hass self) (pipeline_id self) of
           Inl e \<Rightarrow> (Inl e, [Call_async_get_pipeline (pipeline_id self)], w)
         | Inr pipeline \<Rightarrow>
             (let run = new_run env self pipeline;
                  pipeline_input = new_input self run;
                  constructed =
                    [Call_async_get_pipeline (pipeline_id self)] @
                    (if truthy settings_bool (audio_settings self) then []
                     else [Call_AudioSettings]) @
                    [Call_PipelineRun run, Call_PipelineInput pipeline_input]
              in case validate env pipeline_input w of
                   (Some e, w1) \<Rightarrow>
                     (Inl (Propagated e), constructed @ [Call_validate pipeline_input], w1)
                 | (None, w1) \<Rightarrow>
                     (case execute env pipeline_input w1 of
                        (Some e, w2) \<Rightarrow>
                          (Inl (Propagated e),
                           constructed @
                             [Call_validate pipeline_input, Call_execute pipeline_input], w2)
                      | (None, w2) \<Rightarrow>
                          (Inr (),
                           constructed @
                             [Call_validate pipeline_input, Call_execute pipeline_input], w2)))))"

section \<open>The Alexa flash-briefing endpoint\<close>

text \<open>
  The constants of \<open>const.py\<close> and of \<open>homeassistant.const\<close> are not among the sources:
  they are parameters, as are the three things the view takes from outside.
  \<open>uuid4 n\<close> is \<open>str(uuid.uuid4())\<close> at the \<open>n\<close>-th call, \<open>utcnow_strftime n fmt\<close> is
  \<open>dt_util.utcnow().strftime(fmt)\<close> at the \<open>n\<close>-th reading of the clock, and
  \<open>async_render src\<close> is \<open>Template.async_render(parse_result=False)\<close> of the template
  \<open>src\<close>: the rendered text, or the class name of the exception it raised.
\<close>

record alexa_env =
  API_PASSWORD :: string
  CONF_PASSWORD :: string
  ATTR_MAIN_TEXT :: string
  ATTR_REDIRECTION_URL :: string
  ATTR_STREAM_URL :: string
  ATTR_TITLE_TEXT :: string
  ATTR_UID :: string
  ATTR_UPDATE_DATE :: string
  CONF_AUDIO :: string
  CONF_DISPLAY_URL :: string
  CONF_TEXT :: string
  CONF_TITLE :: string
  CONF_UID :: string
  DATE_FORMAT :: string
  uuid4 :: "nat \<Rightarrow> string"
  utcnow_strftime :: "nat \<Rightarrow> string \<Rightarrow> string"
  async_render :: "string \<Rightarrow> string + string"

text \<open>
  The state a request changes: how many UUIDs have been drawn and how often the clock
  has been read. Log records are not modelled.
\<close>

record briefing_world =
  uuid_calls :: nat
  clock_calls :: nat

text \<open>The view holds the flash-briefing configuration; a request has its query string.\<close>

record AlexaFlashBriefingView =
  flash_briefings :: py_dict

record HomeAssistantRequest =
  query :: "(string \<times> string) list"

datatype HTTPStatus = UNAUTHORIZED | NOT_FOUND

text \<open>
  What \<open>get\<close> returns: a pair of body and status, or the response \<open>self.json(briefing)\<close>
  makes of the briefing.
\<close>

datatype response =
    BodyStatus string HTTPStatus
  | JsonResponse "py_dict list"

text \<open>\<open>hmac.compare_digest\<close>: equality of the two byte strings, in constant time.\<close>

definition compare_digest :: "string \<Rightarrow> string \<Rightarrow> bool" where
  "compare_digest a b = (a = b)"

text \<open>\<open>s.encode("utf-8")\<close>: a \<open>str\<close> is held as its UTF-8 bytes.\<close>

definition encode_utf8 :: "string \<Rightarrow> string" where
  "encode_utf8 s = s"

text \<open>
  \<open>_authenticate\<close>. \<open>self.flash_briefings[CONF_PASSWORD]\<close> raises KeyError without a
  configured password, and \<open>.encode\<close> raises AttributeError when it is not a \<open>str\<close>.
\<close>

definition authenticate ::
  "alexa_env \<Rightarrow> AlexaFlashBriefingView \<Rightarrow> HomeAssistantRequest \<Rightarrow> string \<Rightarrow> error + bool" where
  "authenticate env self request briefing_id =
     (case map_of (query request) (API_PASSWORD env) of
        None \<Rightarrow> Inr False
      | Some given \<Rightarrow>
          (case map_of (flash_briefings self) (CONF_PASSWORD env) of
             None \<Rightarrow> Inl (KeyError (CONF_PASSWORD env))
           | Some (PyStr configured) \<Rightarrow>
               (if \<not> compare_digest (encode_utf8 given) (encode_utf8 configured)
                then Inr False
                else Inr True)
           | Some _ \<Rightarrow> Inl (AttributeError ''encode'')))"

text \<open>
  \<open>item.get(key)\<close>: the value, None for a key that is absent, and AttributeError when
  the item is not a dictionary.
\<close>

definition py_get :: "py_value \<Rightarrow> string \<Rightarrow> error + py_value" where
  "py_get item key =
     (case item of
        PyDict d \<Rightarrow> (case map_of d key of Some v \<Rightarrow> Inr v | None \<Rightarrow> Inr PyNone)
      | _ \<Rightarrow> Inl (AttributeError ''get''))"

text \<open>\<open>_add_text_field\<close>: the output dictionary is returned updated.\<close>

definition add_text_field ::
  "alexa_env \<Rightarrow> py_dict \<Rightarrow> py_value \<Rightarrow> string \<Rightarrow> string \<Rightarrow> error + py_dict" where
  "add_text_field env output item conf_key attr_key =
     (case py_get item conf_key of
        Inl e \<Rightarrow> Inl e
      | Inr v \<Rightarrow>
          (if v \<noteq> PyNone then
             (case v of
                PyTemplate src \<Rightarrow>
                  (case async_render env src of
                     Inl e \<Rightarrow> Inl (Propagated e)
                   | Inr rendered \<Rightarrow> Inr (AList.update attr_key (PyStr rendered) output))
              | _ \<Rightarrow> Inr (AList.update attr_key v output))
           else Inr output))"

text \<open>\<open>_add_uid\<close>: a configured uid is kept, otherwise a UUID is drawn.\<close>

definition add_uid ::
  "alexa_env \<Rightarrow> py_dict \<Rightarrow> py_value \<Rightarrow> briefing_world \<Rightarrow> (error + py_dict) \<times> briefing_world" where
  "add_uid env output item w =
     (case py_get item (CONF_UID env) of
        Inl e \<Rightarrow> (Inl e, w)
      | Inr uid \<Rightarrow>
          (if uid = PyNone
           then (Inr (AList.update (ATTR_UID env) (PyStr (uuid4 env (uuid_calls w))) output),
                 w\<lparr>uuid_calls := Suc (uuid_calls w)\<rparr>)
           else (Inr (AList.update (ATTR_UID env) uid output), w)))"

text \<open>\<open>_process_briefing_item\<close>: the five fields in the order of the source, then the date.\<close>

definition process_briefing_item ::
  "alexa_env \<Rightarrow> py_value \<Rightarrow> briefing_world \<Rightarrow> (error + py_dict) \<times> briefing_world" where
  "process_briefing_item env item w =
     (case add_text_field env [] item (CONF_TITLE env) (ATTR_TITLE_TEXT env) of
        Inl e \<Rightarrow> (Inl e, w)
      | Inr output1 \<Rightarrow>
     (case add_text_field env output1 item (CONF_TEXT env) (ATTR_MAIN_TEXT env) of
        Inl e \<Rightarrow> (Inl e, w)
      | Inr output2 \<Rightarrow>
     (case add_uid env output2 item w of
        (Inl e, w1) \<Rightarrow> (Inl e, w1)
      | (Inr output3, w1) \<Rightarrow>
     (case add_text_field env output3 item (CONF_AUDIO env) (ATTR_STREAM_URL env) of
        Inl e \<Rightarrow> (Inl e, w1)
      | Inr output4 \<Rightarrow>
     (case add_text_field env output4 item (CONF_DISPLAY_URL env) (ATTR_REDIRECTION_URL env) of
        Inl e \<Rightarrow> (Inl e, w1)
      | Inr output5 \<Rightarrow>
          (Inr (AList.update (ATTR_UPDATE_DATE env)
                  (PyStr (utcnow_strftime env (clock_calls w1) (DATE_FORMAT env))) output5),
           w1\<lparr>clock_calls := Suc (clock_calls w1)\<rparr>))))))"

text \<open>
  The loop of \<open>_generate_briefing\<close>: \<open>briefing\<close> is the list built so far, and each
  output is appended to it.
\<close>

fun generate_loop ::
  "alexa_env \<Rightarrow> py_value list \<Rightarrow> py_dict list \<Rightarrow> briefing_world \<Rightarrow>
   (error + py_dict list) \<times> briefing_world" where
  "generate_loop env [] briefing w = (Inr briefing, w)"
| "generate_loop env (item # rest) briefing w =
     (case process_briefing_item env item w of
        (Inl e, w1) \<Rightarrow> (Inl e, w1)
      | (Inr output, w1) \<Rightarrow> generate_loop env rest (briefing @ [output]) w1)"

text \<open>\<open>_generate_briefing\<close>.\<close>

definition generate_briefing ::
  "alexa_env \<Rightarrow> py_value list \<Rightarrow> briefing_world \<Rightarrow> (error + py_dict list) \<times> briefing_world" where
  "generate_briefing env briefing_config w = generate_loop env briefing_config [] w"

text \<open>
  \<open>get\<close>. \<open>isinstance(briefing_config, list)\<close> holds for a \<open>PyList\<close> only; an absent
  key gives None, which is no list.
\<close>

definition get ::
  "alexa_env \<Rightarrow> AlexaFlashBriefingView \<Rightarrow> HomeAssistantRequest \<Rightarrow> string \<Rightarrow> briefing_world \<Rightarrow>
   (error + response) \<times> briefing_world" where
  "get env self request briefing_id w =
     (case authenticate env self request briefing_id of
        Inl e \<Rightarrow> (Inl e, w)
      | Inr ok \<Rightarrow>
          (if \<not> ok then (Inr (BodyStatus [] UNAUTHORIZED), w)
           else
             (case map_of (flash_briefings self) briefing_id of
                Some (PyList briefing_config) \<Rightarrow>
                  (case generate_briefing env briefing_config w of
                     (Inl e, w1) \<Rightarrow> (Inl e, w1)
                   | (Inr briefing, w1) \<Rightarrow> (Inr (JsonResponse briefing), w1))
              | _ \<Rightarrow> (Inr (BodyStatus [] NOT_FOUND), w))))"

subsection \<open>What a briefing item yields\<close>

text \<open>
  The notions the properties of \<open>_generate_briefing\<close> are stated with, and the closed
  forms their proofs go through. A key is configured in an item when it is present
  with a value other than None.
\<close>

definition configured :: "py_dict \<Rightarrow> string \<Rightarrow> bool" where
  "configured d k = (case map_of d k of None \<Rightarrow> False | Some v \<Rightarrow> v \<noteq> PyNone)"

text \<open>A template under the key \<open>k\<close> of the item, if there is one, renders.\<close>

definition renders :: "alexa_env \<Rightarrow> py_dict \<Rightarrow> string \<Rightarrow> bool" where
  "renders env d k =
     (case map_of d k of
        Some (PyTemplate src) \<Rightarrow> (case async_render env src of Inl _ \<Rightarrow> False | Inr _ \<Rightarrow> True)
      | _ \<Rightarrow> True)"

text \<open>
  A briefing item: a dictionary whose templates, under the four keys of the text
  fields, render without an exception.
\<close>

definition is_briefing_item :: "alexa_env \<Rightarrow> py_value \<Rightarrow> bool" where
  "is_briefing_item env item =
     (case item of
        PyDict d \<Rightarrow>
          renders env d (CONF_TITLE env) \<and> renders env d (CONF_TEXT env) \<and>
          renders env d (CONF_AUDIO env) \<and> renders env d (CONF_DISPLAY_URL env)
      | _ \<Rightarrow> False)"

text \<open>An item for which \<open>_add_uid\<close> draws a UUID: its uid is not configured.\<close>

definition draws_uuid :: "alexa_env \<Rightarrow> py_value \<Rightarrow> bool" where
  "draws_uuid env item =
     (case item of PyDict d \<Rightarrow> \<not> configured d (CONF_UID env) | _ \<Rightarrow> False)"

text \<open>The value a text field gets: none when the key is not configured.\<close>

definition text_value :: "alexa_env \<Rightarrow> py_dict \<Rightarrow> string \<Rightarrow> py_value option" where
  "text_value env d k =
     (case map_of d k of
        None \<Rightarrow> None
      | Some PyNone \<Rightarrow> None
      | Some (PyTemplate src) \<Rightarrow>
          (case async_render env src of Inl _ \<Rightarrow> None | Inr rendered \<Rightarrow> Some (PyStr rendered))
      | Some v \<Rightarrow> Some v)"

definition put :: "string \<Rightarrow> py_value option \<Rightarrow> py_dict \<Rightarrow> py_dict" where
  "put k vo output = (case vo of None \<Rightarrow> output | Some v \<Rightarrow> AList.update k v output)"

definition uid_value :: "alexa_env \<Rightarrow> py_dict \<Rightarrow> nat \<Rightarrow> py_value" where
  "uid_value env d n =
     (if configured d (CONF_UID env) then the (map_of d (CONF_UID env))
      else PyStr (uuid4 env n))"

text \<open>
  The output of an item processed when \<open>n\<close> UUIDs have been drawn and the clock has been
  read \<open>t\<close> times.
\<close>

definition item_output :: "alexa_env \<Rightarrow> py_dict \<Rightarrow> nat \<Rightarrow> nat \<Rightarrow> py_dict" where
  "item_output env d n t =
     AList.update (ATTR_UPDATE_DATE env) (PyStr (utcnow_strftime env t (DATE_FORMAT env)))
       (put (ATTR_REDIRECTION_URL env) (text_value env d (CONF_DISPLAY_URL env))
         (put (ATTR_STREAM_URL env) (text_value env d (CONF_AUDIO env))
           (AList.update (ATTR_UID env) (uid_value env d n)
             (put (ATTR_MAIN_TEXT env) (text_value env d (CONF_TEXT env))
               (put (ATTR_TITLE_TEXT env) (text_value env d (CONF_TITLE env)) [])))))"

fun outputs :: "alexa_env \<Rightarrow> py_value list \<Rightarrow> nat \<Rightarrow> nat \<Rightarrow> py_dict list" where
  "outputs env [] n t = []"
| "outputs env (item # rest) n t =
     (case item of
        PyDict d \<Rightarrow>
          item_output env d n t #
          outputs env rest (if configured d (CONF_UID env) then n else Suc n) (Suc t)
      | _ \<Rightarrow> [])"

section \<open>Concrete instances\<close>

text \<open>
  A registry with one configuration that is also the default, and one with nothing in
  it; a pipeline module whose world counts the runs executed and whose audio stream is
  a buffer of chunks, false when it is empty as an object with \<open>__len__\<close> is; a builder
  with the four required attributes set; set-up helpers of which the first stores under another key;
  and a flash-briefing view with a password and one briefing of two items, over the
  names the constants have in Home Assistant.
\<close>

definition demo_pipeline :: Pipeline where
  "demo_pipeline =
     \<lparr>conf_id = ''01'', conf_name = ''Home Assistant'', conf_language = ''en'',
      wake_word_engine = None, stt_engine = Some ''stt.cloud'',
      conversation_engine = Some ''conversation.home_assistant'',
      tts_engine = Some ''tts.cloud''\<rparr>"

definition demo_hass :: HomeAssistant where
  "demo_hass =
     \<lparr>data = [],
      pipeline_registry =
        \<lparr>configurations = [(''01'', demo_pipeline)],
         default_configuration = Some demo_pipeline\<rparr>\<rparr>"

definition bare_hass :: HomeAssistant where
  "bare_hass =
     \<lparr>data = [(''assist_pipeline.last_wake_up'', PyDict [(''ok_nabu'', PyInt 17)])],
      pipeline_registry = \<lparr>configurations = [], default_configuration = None\<rparr>\<rparr>"

definition demo_module :: "(nat, nat, string, string list, nat, nat, nat) pipeline_module" where
  "demo_module =
     \<lparr>context_bool = (\<lambda>c. True),
      callback_bool = (\<lambda>f. True),
      metadata_bool = (\<lambda>m. True),
      stream_bool = (\<lambda>chunks. chunks \<noteq> []),
      AudioSettings_new = 0,
      validate = (\<lambda>i w. (None, w)),
      execute = (\<lambda>i w. (None, Suc w))\<rparr>"

definition ready :: "HomeAssistant \<Rightarrow> (nat, nat, string, string list, nat, nat) AudioStreamPipelineBuilder" where
  "ready h =
     (init h)\<lparr>context' := Some 1, event_callback := Some 2,
               stt_metadata := Some ''en'', stt_stream := Some [''chunk'']\<rparr>"

definition demo_setup_env :: setup_env where
  "demo_setup_env =
     \<lparr>DOMAIN = ''assist_pipeline'',
      DATA_CONFIG = ''assist_pipeline.config'',
      DATA_LAST_WAKE_UP = ''assist_pipeline.last_wake_up'',
      async_setup_pipeline_store =
        (\<lambda>h. (None, h\<lparr>data := AList.update ''assist_pipeline'' (PyDict []) (data h)\<rparr>)),
      async_run_migrations = (\<lambda>h. (None, h)),
      async_register_websocket_api = (\<lambda>h. (None, h))\<rparr>"

definition demo_alexa_env :: alexa_env where
  "demo_alexa_env =
     \<lparr>API_PASSWORD = ''password'',
      CONF_PASSWORD = ''password'',
      ATTR_MAIN_TEXT = ''mainText'',
      ATTR_REDIRECTION_URL = ''redirectionUrl'',
      ATTR_STREAM_URL = ''streamUrl'',
      ATTR_TITLE_TEXT = ''titleText'',
      ATTR_UID = ''uid'',
      ATTR_UPDATE_DATE = ''updateDate'',
      CONF_AUDIO = ''audio'',
      CONF_DISPLAY_URL = ''display_url'',
      CONF_TEXT = ''text'',
      CONF_TITLE = ''title'',
      CONF_UID = ''uid'',
      DATE_FORMAT = ''%Y-%m-%dT%H:%M:%S.0Z'',
      uuid4 = (\<lambda>n. replicate (Suc n) (CHR ''u'')),
      utcnow_strftime = (\<lambda>n fmt. replicate (Suc n) (CHR ''t'')),
      async_render = (\<lambda>src. if src = ''{{ 1 / 0 }}'' then Inl ''TemplateError'' else Inr src)\<rparr>"

definition demo_news :: "py_value list" where
  "demo_news =
     [PyDict [(''title'', PyStr ''Hello''), (''text'', PyTemplate ''Good morning'')],
      PyDict [(''uid'', PyStr ''item-2''), (''audio'', PyStr ''http://example.org/a.mp3''),
              (''title'', PyNone)]]"

definition demo_view :: AlexaFlashBriefingView where
  "demo_view =
     \<lparr>flash_briefings = [(''password'', PyStr ''secret''), (''news'', PyList demo_news)]\<rparr>"

definition demo_world :: briefing_world where
  "demo_world = \<lparr>uuid_calls = 3, clock_calls = 5\<rparr>"

section \<open>Properties of the builder\<close>

lemma truthy_simps:
  "truthy obj_bool None = False" "truthy obj_bool (Some v) = obj_bool v"
  by (simp_all add: truthy_def)

lemma truthy_settings:
  "truthy settings_bool x \<longleftrightarrow> x \<noteq> None"
  by (cases x) (simp_all add: truthy_def settings_bool_def)

lemma demo_truths:
  "context_bool demo_module c" "callback_bool demo_module f" "metadata_bool demo_module m"
  "stream_bool demo_module chunks \<longleftrightarrow> chunks \<noteq> []"
  by (simp_all add: demo_module_def)

lemma build_demo:
  "build demo_module (ready demo_hass) 0 =
     (Inr (),
      [Call_async_get_pipeline None, Call_AudioSettings,
       Call_PipelineRun (new_run demo_module (ready demo_hass) demo_pipeline),
       Call_PipelineInput
         (new_input (ready demo_hass) (new_run demo_module (ready demo_hass) demo_pipeline)),
       Call_validate
         (new_input (ready demo_hass) (new_run demo_module (ready demo_hass) demo_pipeline)),
       Call_execute
         (new_input (ready demo_hass) (new_run demo_module (ready demo_hass) demo_pipeline))],
      1)"
  by (simp add: build_def py_all_def truthy_def settings_bool_def ready_def init_def
      async_get_pipeline_def demo_hass_def demo_module_def Let_def)

lemma ready_fields:
  "hass (ready h) = h" "context' (ready h) = Some 1" "event_callback (ready h) = Some 2"
  "stt_metadata (ready h) = Some ''en''" "stt_stream (ready h) = Some [''chunk'']"
  "pipeline_id (ready h) = None" "audio_settings (ready h) = None"
  by (simp_all add: ready_def init_def)

text \<open>
  C8. A freshly constructed builder has start stage STT and end stage TTS and every
  other parameter (context, event callback, STT metadata, STT stream, wake-word phrase,
  pipeline id, conversation id, TTS audio output, wake-word settings, audio settings,
  device id) None; so by default the wake-word stage is outside the executed range,
  which holds STT, INTENT and TTS.
\<close>

theorem init_defaults:
  "(let b = init h in
     start_stage b = STT \<and> end_stage b = TTS \<and>
     context' b = None \<and> event_callback b = None \<and>
     stt_metadata b = None \<and> stt_stream b = None \<and>
     wake_word_phrase b = None \<and> pipeline_id b = None \<and>
     conversation_id b = None \<and> tts_audio_output b = None \<and>
     wake_word_settings b = None \<and> audio_settings b = None \<and>
     device_id b = None \<and>
     \<not> stage_in_range (start_stage b) (end_stage b) WAKE_WORD \<and>
     stage_in_range (start_stage b) (end_stage b) STT \<and>
     stage_in_range (start_stage b) (end_stage b) INTENT \<and>
     stage_in_range (start_stage b) (end_stage b) TTS)"
  by (simp add: init_def stage_in_range_def)

text \<open>
  C1, as stated, fails in its second half: with all four required attributes present,
  none of them None, \<open>build\<close> still raises the error of the missing required parameters
  when one of them is an object whose truth value is false, here an empty audio
  buffer; nothing has been called by then.
\<close>

theorem build_falsy_stream_counterexample:
  "context' ((ready demo_hass)\<lparr>stt_stream := Some []\<rparr>) \<noteq> None \<and>
   event_callback ((ready demo_hass)\<lparr>stt_stream := Some []\<rparr>) \<noteq> None \<and>
   stt_metadata ((ready demo_hass)\<lparr>stt_stream := Some []\<rparr>) \<noteq> None \<and>
   stt_stream ((ready demo_hass)\<lparr>stt_stream := Some []\<rparr>) \<noteq> None \<and>
   build demo_module ((ready demo_hass)\<lparr>stt_stream := Some []\<rparr>) 0
     = (Inl (ValueError ''Missing required parameters''), [], 0)"
  by (simp add: build_def py_all_def truthy_def ready_def init_def demo_module_def)

text \<open>
  C1, amended. \<open>build\<close> raises the error of the missing required parameters exactly
  when one of context, event callback, STT metadata and STT stream is not true, that
  is when it is None or an object whose truth value is false: it raises it whenever one
  of the four is absent, and never when all four are present and true.
\<close>

theorem build_missing_iff_truth:
  "fst (build env self w) = Inl (ValueError ''Missing required parameters'') \<longleftrightarrow>
   \<not> (truthy (context_bool env) (context' self) \<and>
      truthy (callback_bool env) (event_callback self) \<and>
      truthy (metadata_bool env) (stt_metadata self) \<and>
      truthy (stream_bool env) (stt_stream self))"
proof (cases "py_all [truthy (context_bool env) (context' self),
                       truthy (callback_bool env) (event_callback self),
                       truthy (metadata_bool env) (stt_metadata self),
                       truthy (stream_bool env) (stt_stream self)]")
  case True
  then have "fst (build env self w) \<noteq> Inl (ValueError ''Missing required parameters'')"
    by (auto simp: build_def Let_def async_get_pipeline_def
        split: sum.splits option.splits prod.splits)
  with True show ?thesis by (simp add: py_all_def)
next
  case False
  then have "fst (build env self w) = Inl (ValueError ''Missing required parameters'')"
    by (simp add: build_def)
  with False show ?thesis by (simp add: py_all_def)
qed

text \<open>
  The builder without any parameter, the ready builder with each of the four required
  attributes taken away in turn, and the ready builder with an empty audio buffer raise
  the error; the ready builder does not.
\<close>

theorem build_missing_iff_truth_witness:
  "fst (build demo_module (init demo_hass) 0)
     = Inl (ValueError ''Missing required parameters'') \<and>
   fst (build demo_module ((ready demo_hass)\<lparr>context' := None\<rparr>) 0)
     = Inl (ValueError ''Missing required parameters'') \<and>
   fst (build demo_module ((ready demo_hass)\<lparr>event_callback := None\<rparr>) 0)
     = Inl (ValueError ''Missing required parameters'') \<and>
   fst (build demo_module ((ready demo_hass)\<lparr>stt_metadata := None\<rparr>) 0)
     = Inl (ValueError ''Missing required parameters'') \<and>
   fst (build demo_module ((ready demo_hass)\<lparr>stt_stream := None\<rparr>) 0)
     = Inl (ValueError ''Missing required parameters'') \<and>
   fst (build demo_module ((ready demo_hass)\<lparr>stt_stream := Some []\<rparr>) 0)
     = Inl (ValueError ''Missing required parameters'') \<and>
   fst (build demo_module (ready demo_hass) 0)
     \<noteq> Inl (ValueError ''Missing required parameters'')"
  using build_missing_iff_truth [of demo_module "init demo_hass" 0]
    build_missing_iff_truth [of demo_module "(ready demo_hass)\<lparr>context' := None\<rparr>" 0]
    build_missing_iff_truth [of demo_module "(ready demo_hass)\<lparr>event_callback := None\<rparr>" 0]
    build_missing_iff_truth [of demo_module "(ready demo_hass)\<lparr>stt_metadata := None\<rparr>" 0]
    build_missing_iff_truth [of demo_module "(ready demo_hass)\<lparr>stt_stream := None\<rparr>" 0]
    build_missing_iff_truth [of demo_module "(ready demo_hass)\<lparr>stt_stream := Some []\<rparr>" 0]
    build_missing_iff_truth [of demo_module "ready demo_hass" 0]
  by (simp add: init_def ready_def truthy_simps demo_truths)

text \<open>
  C3. With a required attribute missing, \<open>build\<close> raises the error having made no call
  at all: no registry lookup, no \<open>PipelineRun\<close> and no \<open>PipelineInput\<close> constructed,
  neither \<open>validate\<close> nor \<open>execute\<close> called; and the world, which holds the audio
  consumed and the events delivered, is the one it started in.
\<close>

theorem build_missing_no_effect:
  assumes "context' self = None \<or> event_callback self = None \<or>
           stt_metadata self = None \<or> stt_stream self = None"
  shows "build env self w = (Inl (ValueError ''Missing required parameters''), [], w)"
  using assms by (auto simp add: build_def py_all_def truthy_simps)

theorem build_missing_no_effect_witness:
  "build demo_module ((ready bare_hass)\<lparr>stt_stream := None\<rparr>) 5
     = (Inl (ValueError ''Missing required parameters''), [], 5)"
  by (rule build_missing_no_effect) (simp add: ready_def init_def)

text \<open>
  C2, as stated, fails: the ready builder's \<open>build\<close> returns normally, and by then it
  has called \<open>execute\<close> on the input it constructed; the world counts one executed run.
\<close>

theorem build_executes_counterexample:
  "fst (build demo_module (ready demo_hass) 0) = Inr () \<and>
   Call_execute
     (new_input (ready demo_hass) (new_run demo_module (ready demo_hass) demo_pipeline))
     \<in> set (fst (snd (build demo_module (ready demo_hass) 0))) \<and>
   snd (snd (build demo_module (ready demo_hass) 0)) = 1"
  by (simp add: build_demo)

text \<open>
  C2, amended. \<open>build\<close> constructs the \<open>PipelineRun\<close> and the \<open>PipelineInput\<close>,
  validates the input and then itself executes it: whenever \<open>build\<close> returns normally,
  the configuration was resolved, \<open>validate\<close> and then \<open>execute\<close> were called on the
  constructed input, neither raised, and the world is the one \<open>execute\<close> left.
\<close>

theorem build_returns_after_execute:
  assumes "fst (build env self w) = Inr ()"
  shows "\<exists>p w1. async_get_pipeline (hass self) (pipeline_id self) = Inr p \<and>
           validate env (new_input self (new_run env self p)) w = (None, w1) \<and>
           execute env (new_input self (new_run env self p)) w1
             = (None, snd (snd (build env self w))) \<and>
           fst (snd (build env self w)) =
             [Call_async_get_pipeline (pipeline_id self)] @
             (if audio_settings self = None then [Call_AudioSettings] else []) @
             [Call_PipelineRun (new_run env self p),
              Call_PipelineInput (new_input self (new_run env self p)),
              Call_validate (new_input self (new_run env self p)),
              Call_execute (new_input self (new_run env self p))]"
  using assms
  by (auto simp add: build_def Let_def truthy_settings
      split: if_splits sum.splits prod.splits option.splits)

theorem build_returns_after_execute_witness:
  "fst (build demo_module (ready demo_hass) 0) = Inr () \<and>
   (\<exists>p w1. async_get_pipeline (hass (ready demo_hass)) (pipeline_id (ready demo_hass)) = Inr p \<and>
      validate demo_module (new_input (ready demo_hass) (new_run demo_module (ready demo_hass) p)) 0
        = (None, w1) \<and>
      execute demo_module (new_input (ready demo_hass) (new_run demo_module (ready demo_hass) p)) w1
        = (None, snd (snd (build demo_module (ready demo_hass) 0))) \<and>
      fst (snd (build demo_module (ready demo_hass) 0)) =
        [Call_async_get_pipeline (pipeline_id (ready demo_hass))] @
        (if audio_settings (ready demo_hass) = None then [Call_AudioSettings] else []) @
        [Call_PipelineRun (new_run demo_module (ready demo_hass) p),
         Call_PipelineInput (new_input (ready demo_hass) (new_run demo_module (ready demo_hass) p)),
         Call_validate (new_input (ready demo_hass) (new_run demo_module (ready demo_hass) p)),
         Call_execute (new_input (ready demo_hass) (new_run demo_module (ready demo_hass) p))])"
proof -
  have returned: "fst (build demo_module (ready demo_hass) 0) = Inr ()"
    by (simp add: build_demo)
  from build_returns_after_execute [OF returned] returned show ?thesis
    by blast
qed

text \<open>
  C5. When \<open>build\<close> gets as far as constructing the run (the required attributes are
  present and true, and the configuration resolves), it constructs exactly one \<open>PipelineRun\<close>, and
  its audio settings are the default \<open>AudioSettings()\<close> when the builder's are None and
  exactly the builder's otherwise; the default is constructed only when it is needed.
\<close>

theorem build_run_audio_settings:
  assumes "truthy (context_bool env) (context' self)"
    "truthy (callback_bool env) (event_callback self)"
    "truthy (metadata_bool env) (stt_metadata self)"
    "truthy (stream_bool env) (stt_stream self)"
    and "async_get_pipeline (hass self) (pipeline_id self) = Inr p"
  shows "\<exists>r. Call_PipelineRun r \<in> set (fst (snd (build env self w))) \<and>
           (\<forall>r'. Call_PipelineRun r' \<in> set (fst (snd (build env self w))) \<longrightarrow> r' = r) \<and>
           run_audio_settings r =
             (case audio_settings self of None \<Rightarrow> AudioSettings_new env | Some a \<Rightarrow> a) \<and>
           (Call_AudioSettings \<in> set (fst (snd (build env self w)))
              \<longleftrightarrow> audio_settings self = None)"
  using assms
  by (auto simp add: build_def Let_def py_all_def truthy_settings new_run_def
      split: prod.splits option.splits)

theorem build_run_audio_settings_witness:
  "(\<exists>r. Call_PipelineRun r \<in> set (fst (snd (build demo_module (ready demo_hass) 0))) \<and>
        run_audio_settings r = AudioSettings_new demo_module) \<and>
   (\<exists>r. Call_PipelineRun r
          \<in> set (fst (snd (build demo_module ((ready demo_hass)\<lparr>audio_settings := Some 7\<rparr>) 0))) \<and>
        run_audio_settings r = 7)"
proof -
  have resolved: "async_get_pipeline demo_hass None = Inr demo_pipeline"
    by (simp add: async_get_pipeline_def demo_hass_def)
  have unset: "\<exists>r. Call_PipelineRun r \<in> set (fst (snd (build demo_module (ready demo_hass) 0))) \<and>
        run_audio_settings r = AudioSettings_new demo_module"
    using build_run_audio_settings
      [where self = "ready demo_hass" and env = demo_module and w = 0 and p = demo_pipeline]
      resolved
    by (auto simp add: ready_fields truthy_simps demo_truths)
  have supplied: "\<exists>r. Call_PipelineRun r
          \<in> set (fst (snd (build demo_module ((ready demo_hass)\<lparr>audio_settings := Some 7\<rparr>) 0))) \<and>
        run_audio_settings r = 7"
    using build_run_audio_settings
      [where self = "(ready demo_hass)\<lparr>audio_settings := Some 7\<rparr>" and env = demo_module
         and w = 0 and p = demo_pipeline]
      resolved
    by (auto simp add: ready_fields truthy_simps demo_truths)
  from unset supplied show ?thesis by blast
qed

text \<open>
  C4. With the required attributes present and true, \<open>build\<close> looks the configuration up under
  the builder's optional \<open>pipeline_id\<close>. When the identifier does not resolve (it is
  None, or no stored configuration has it) and no default exists, \<open>build\<close> raises
  \<open>PipelineNotFound\<close> right after the lookup; when the lookup succeeds, the lookup is
  the first call and the one \<open>PipelineRun\<close> constructed is bound to its result.
\<close>

theorem build_resolves_pipeline:
  assumes "truthy (context_bool env) (context' self)"
    "truthy (callback_bool env) (event_callback self)"
    "truthy (metadata_bool env) (stt_metadata self)"
    "truthy (stream_bool env) (stt_stream self)"
  shows "((case pipeline_id self of
             None \<Rightarrow> True
           | Some i \<Rightarrow> map_of (configurations (pipeline_registry (hass self))) i = None) \<and>
          default_configuration (pipeline_registry (hass self)) = None \<longrightarrow>
            build env self w =
              (Inl PipelineNotFound, [Call_async_get_pipeline (pipeline_id self)], w)) \<and>
         (\<forall>p. async_get_pipeline (hass self) (pipeline_id self) = Inr p \<longrightarrow>
            hd (fst (snd (build env self w))) = Call_async_get_pipeline (pipeline_id self) \<and>
            (\<exists>r. Call_PipelineRun r \<in> set (fst (snd (build env self w))) \<and>
               (\<forall>r'. Call_PipelineRun r' \<in> set (fst (snd (build env self w))) \<longrightarrow> r' = r) \<and>
               run_pipeline r = p))"
  using assms
  by (auto simp add: build_def Let_def py_all_def truthy_settings new_run_def
      async_get_pipeline_def split: prod.splits option.splits)

theorem build_resolves_pipeline_witness:
  "build demo_module (ready bare_hass) 0
     = (Inl PipelineNotFound, [Call_async_get_pipeline None], 0) \<and>
   build demo_module ((ready bare_hass)\<lparr>pipeline_id := Some ''01''\<rparr>) 0
     = (Inl PipelineNotFound, [Call_async_get_pipeline (Some ''01'')], 0) \<and>
   (\<exists>r. Call_PipelineRun r
          \<in> set (fst (snd (build demo_module ((ready demo_hass)\<lparr>pipeline_id := Some ''01''\<rparr>) 0))) \<and>
        run_pipeline r = demo_pipeline)"
proof -
  have a: "build demo_module (ready bare_hass) 0
     = (Inl PipelineNotFound, [Call_async_get_pipeline None], 0)"
    using build_resolves_pipeline [where self = "ready bare_hass" and env = demo_module and w = 0]
    by (simp add: ready_fields bare_hass_def truthy_simps demo_truths)
  have b: "build demo_module ((ready bare_hass)\<lparr>pipeline_id := Some ''01''\<rparr>) 0
     = (Inl PipelineNotFound, [Call_async_get_pipeline (Some ''01'')], 0)"
    using build_resolves_pipeline
      [where self = "(ready bare_hass)\<lparr>pipeline_id := Some ''01''\<rparr>" and env = demo_module
         and w = 0]
    by (simp add: ready_fields bare_hass_def truthy_simps demo_truths)
  have resolved: "async_get_pipeline demo_hass (Some ''01'') = Inr demo_pipeline"
    by (simp add: async_get_pipeline_def demo_hass_def)
  have c: "\<exists>r. Call_PipelineRun r
          \<in> set (fst (snd (build demo_module ((ready demo_hass)\<lparr>pipeline_id := Some ''01''\<rparr>) 0))) \<and>
        run_pipeline r = demo_pipeline"
    using build_resolves_pipeline
      [where self = "(ready demo_hass)\<lparr>pipeline_id := Some ''01''\<rparr>" and env = demo_module
         and w = 0]
      resolved
    by (auto simp add: ready_fields truthy_simps demo_truths)
  from a b c show ?thesis by blast
qed

section \<open>Properties of async_setup\<close>

text \<open>
  C6. \<open>async_setup\<close> stores an empty dictionary under \<open>DATA_LAST_WAKE_UP\<close>: as long as
  the three set-up helpers that run after the assignment leave that key alone, the
  cooldown map of the instance \<open>async_setup\<close> hands back has no entry, whatever it
  held before.
\<close>

theorem async_setup_cooldown_empty:
  assumes "\<And>h. map_of (data (snd (async_setup_pipeline_store env h))) (DATA_LAST_WAKE_UP env)
             = map_of (data h) (DATA_LAST_WAKE_UP env)"
    and "\<And>h. map_of (data (snd (async_run_migrations env h))) (DATA_LAST_WAKE_UP env)
             = map_of (data h) (DATA_LAST_WAKE_UP env)"
    and "\<And>h. map_of (data (snd (async_register_websocket_api env h))) (DATA_LAST_WAKE_UP env)
             = map_of (data h) (DATA_LAST_WAKE_UP env)"
  shows "map_of (data (snd (async_setup env h0 config))) (DATA_LAST_WAKE_UP env)
           = Some (PyDict [])"
proof -
  define hass2 where "hass2 = h0\<lparr>data := AList.update (DATA_LAST_WAKE_UP env) (PyDict [])
     (AList.update (DATA_CONFIG env)
              (case map_of config (DOMAIN env) of Some v \<Rightarrow> v | None \<Rightarrow> PyDict [])
              (data h0))\<rparr>"
  have start: "map_of (data hass2) (DATA_LAST_WAKE_UP env) = Some (PyDict [])"
    by (simp add: hass2_def AList.update_conv')
  obtain r3 h3 where s3: "async_setup_pipeline_store env hass2 = (r3, h3)" by force
  obtain r4 h4 where s4: "async_run_migrations env h3 = (r4, h4)" by force
  obtain r5 h5 where s5: "async_register_websocket_api env h4 = (r5, h5)" by force
  have k3: "map_of (data h3) (DATA_LAST_WAKE_UP env) = Some (PyDict [])"
    using assms(1) [of hass2] s3 start by simp
  have k4: "map_of (data h4) (DATA_LAST_WAKE_UP env) = Some (PyDict [])"
    using assms(2) [of h3] s4 k3 by simp
  have k5: "map_of (data h5) (DATA_LAST_WAKE_UP env) = Some (PyDict [])"
    using assms(3) [of h4] s5 k4 by simp
  show ?thesis
    using s3 s4 s5 k3 k4 k5
    by (auto simp add: async_setup_def Let_def hass2_def split: option.splits)
qed

theorem async_setup_cooldown_empty_witness:
  "async_setup demo_setup_env bare_hass [] =
     (Inr True, snd (async_setup demo_setup_env bare_hass [])) \<and>
   map_of (data bare_hass) ''assist_pipeline.last_wake_up''
     = Some (PyDict [(''ok_nabu'', PyInt 17)]) \<and>
   map_of (data (snd (async_setup demo_setup_env bare_hass []))) ''assist_pipeline.last_wake_up''
     = Some (PyDict [])"
proof -
  have "map_of (data (snd (async_setup demo_setup_env bare_hass [])))
          (DATA_LAST_WAKE_UP demo_setup_env) = Some (PyDict [])"
    by (rule async_setup_cooldown_empty) (simp_all add: demo_setup_env_def AList.update_conv')
  moreover have "async_setup demo_setup_env bare_hass [] =
     (Inr True, snd (async_setup demo_setup_env bare_hass []))"
    by (simp add: async_setup_def demo_setup_env_def Let_def)
  ultimately show ?thesis
    by (simp add: demo_setup_env_def bare_hass_def)
qed


section \<open>Properties of the flash-briefing endpoint\<close>

text \<open>
  C7. With a password configured, \<open>get\<close> answers with the empty body and 401
  UNAUTHORIZED exactly when the request's password parameter is absent or differs from
  the configured one; it then leaves the world as it was, so no UUID is drawn and the
  clock is not read. A JSON response is served only to a request with the right
  password, and it is the briefing generated from the list configured under the
  briefing id.
\<close>

theorem get_unauthorized_iff:
  assumes "map_of (flash_briefings self) (CONF_PASSWORD env) = Some (PyStr password)"
  shows "(fst (get env self request briefing_id w) = Inr (BodyStatus [] UNAUTHORIZED) \<longleftrightarrow>
            (map_of (query request) (API_PASSWORD env) = None \<or>
             (\<exists>given. map_of (query request) (API_PASSWORD env) = Some given \<and> given \<noteq> password))) \<and>
         (fst (get env self request briefing_id w) = Inr (BodyStatus [] UNAUTHORIZED) \<longrightarrow>
            snd (get env self request briefing_id w) = w) \<and>
         (\<forall>briefing. fst (get env self request briefing_id w) = Inr (JsonResponse briefing) \<longrightarrow>
            map_of (query request) (API_PASSWORD env) = Some password \<and>
            (\<exists>briefing_config.
               map_of (flash_briefings self) briefing_id = Some (PyList briefing_config) \<and>
               fst (generate_briefing env briefing_config w) = Inr briefing))"
  using assms
  by (auto simp add: get_def authenticate_def compare_digest_def encode_utf8_def
      split: option.splits py_value.splits prod.splits sum.splits if_splits)

theorem get_unauthorized_iff_witness:
  "fst (get demo_alexa_env demo_view \<lparr>query = []\<rparr> ''news'' demo_world)
     = Inr (BodyStatus [] UNAUTHORIZED) \<and>
   fst (get demo_alexa_env demo_view \<lparr>query = [(''password'', ''guess'')]\<rparr> ''news'' demo_world)
     = Inr (BodyStatus [] UNAUTHORIZED) \<and>
   snd (get demo_alexa_env demo_view \<lparr>query = [(''password'', ''guess'')]\<rparr> ''news'' demo_world)
     = demo_world \<and>
   fst (get demo_alexa_env demo_view \<lparr>query = [(''password'', ''secret'')]\<rparr> ''news'' demo_world)
     \<noteq> Inr (BodyStatus [] UNAUTHORIZED)"
proof -
  have pw: "map_of (flash_briefings demo_view) (CONF_PASSWORD demo_alexa_env)
              = Some (PyStr ''secret'')"
    by (simp add: demo_view_def demo_alexa_env_def)
  have api: "API_PASSWORD demo_alexa_env = ''password''"
    by (simp add: demo_alexa_env_def)
  note t = get_unauthorized_iff [OF pw]
  have a: "fst (get demo_alexa_env demo_view \<lparr>query = []\<rparr> ''news'' demo_world)
     = Inr (BodyStatus [] UNAUTHORIZED)"
    using t [of "\<lparr>query = []\<rparr>" "''news''" demo_world] by simp
  have b: "fst (get demo_alexa_env demo_view \<lparr>query = [(''password'', ''guess'')]\<rparr> ''news'' demo_world)
     = Inr (BodyStatus [] UNAUTHORIZED)"
    using t [of "\<lparr>query = [(''password'', ''guess'')]\<rparr>" "''news''" demo_world] api by simp
  have c: "snd (get demo_alexa_env demo_view \<lparr>query = [(''password'', ''guess'')]\<rparr> ''news'' demo_world)
     = demo_world"
    using t [of "\<lparr>query = [(''password'', ''guess'')]\<rparr>" "''news''" demo_world] b by blast
  have d: "fst (get demo_alexa_env demo_view \<lparr>query = [(''password'', ''secret'')]\<rparr> ''news'' demo_world)
     \<noteq> Inr (BodyStatus [] UNAUTHORIZED)"
    using t [of "\<lparr>query = [(''password'', ''secret'')]\<rparr>" "''news''" demo_world] api by simp
  from a b c d show ?thesis by blast
qed

text \<open>
  C9. For an authenticated request whose briefing id is not mapped to a list (the key is
  absent, or its value is no list), \<open>get\<close> answers with the empty body and 404
  NOT_FOUND and leaves the world as it was: no briefing item is generated.
\<close>

theorem get_not_found:
  assumes "authenticate env self request briefing_id = Inr True"
    and "\<forall>briefing_config. map_of (flash_briefings self) briefing_id \<noteq> Some (PyList briefing_config)"
  shows "get env self request briefing_id w = (Inr (BodyStatus [] NOT_FOUND), w)"
  using assms
  by (auto simp add: get_def split: option.splits py_value.splits)

theorem get_not_found_witness:
  "get demo_alexa_env demo_view \<lparr>query = [(''password'', ''secret'')]\<rparr> ''weather'' demo_world
     = (Inr (BodyStatus [] NOT_FOUND), demo_world) \<and>
   get demo_alexa_env demo_view \<lparr>query = [(''password'', ''secret'')]\<rparr> ''password'' demo_world
     = (Inr (BodyStatus [] NOT_FOUND), demo_world)"
proof -
  have auth: "authenticate demo_alexa_env demo_view \<lparr>query = [(''password'', ''secret'')]\<rparr> b
                = Inr True" for b
    by (simp add: authenticate_def demo_alexa_env_def demo_view_def compare_digest_def
        encode_utf8_def)
  have a: "get demo_alexa_env demo_view \<lparr>query = [(''password'', ''secret'')]\<rparr> ''weather'' demo_world
     = (Inr (BodyStatus [] NOT_FOUND), demo_world)"
    by (rule get_not_found [OF auth]) (simp add: demo_view_def)
  have b: "get demo_alexa_env demo_view \<lparr>query = [(''password'', ''secret'')]\<rparr> ''password'' demo_world
     = (Inr (BodyStatus [] NOT_FOUND), demo_world)"
    by (rule get_not_found [OF auth]) (simp add: demo_view_def)
  from a b show ?thesis by simp
qed

subsection \<open>Generating the briefing\<close>

lemma map_of_put:
  "map_of (put k vo output) k' = (if k' = k \<and> vo \<noteq> None then vo else map_of output k')"
  by (cases vo) (simp_all add: put_def AList.update_conv')

lemma add_text_field_dict:
  "renders env d ck \<Longrightarrow>
   add_text_field env output (PyDict d) ck ak = Inr (put ak (text_value env d ck) output)"
  by (auto simp add: add_text_field_def py_get_def renders_def text_value_def put_def
      split: option.splits py_value.splits sum.splits)

lemma add_uid_dict:
  "add_uid env output (PyDict d) w =
     (Inr (AList.update (ATTR_UID env) (uid_value env d (uuid_calls w)) output),
      if configured d (CONF_UID env) then w else w\<lparr>uuid_calls := Suc (uuid_calls w)\<rparr>)"
  by (auto simp add: add_uid_def py_get_def uid_value_def configured_def split: option.splits)

lemma process_briefing_item_dict:
  assumes "is_briefing_item env (PyDict d)"
  shows "process_briefing_item env (PyDict d) w =
     (Inr (item_output env d (uuid_calls w) (clock_calls w)),
      w\<lparr>uuid_calls := (if configured d (CONF_UID env) then uuid_calls w else Suc (uuid_calls w)),
        clock_calls := Suc (clock_calls w)\<rparr>)"
  using assms
  by (simp add: process_briefing_item_def is_briefing_item_def add_text_field_dict add_uid_dict
      item_output_def)

lemma draws_uuid_dict:
  "draws_uuid env (PyDict d) \<longleftrightarrow> \<not> configured d (CONF_UID env)"
  by (simp add: draws_uuid_def)

lemma generate_loop_outputs:
  "list_all (is_briefing_item env) cfg \<Longrightarrow>
   generate_loop env cfg acc w =
     (Inr (acc @ outputs env cfg (uuid_calls w) (clock_calls w)),
      w\<lparr>uuid_calls := uuid_calls w + length (filter (draws_uuid env) cfg),
        clock_calls := clock_calls w + length cfg\<rparr>)"
proof (induction cfg arbitrary: acc w)
  case Nil
  then show ?case by simp
next
  case (Cons item rest)
  from Cons.prems obtain d where item: "item = PyDict d"
    by (cases item) (simp_all add: is_briefing_item_def)
  from Cons.prems have first: "is_briefing_item env (PyDict d)"
    and others: "list_all (is_briefing_item env) rest"
    by (simp_all add: item)
  show ?case
    by (simp add: item process_briefing_item_dict [OF first] Cons.IH [OF others] draws_uuid_dict)
qed

lemma outputs_length:
  "list_all (is_briefing_item env) cfg \<Longrightarrow> length (outputs env cfg n t) = length cfg"
proof (induction cfg arbitrary: n t)
  case Nil
  then show ?case by simp
next
  case (Cons item rest)
  then show ?case
    by (cases item) (simp_all add: is_briefing_item_def)
qed

lemma outputs_nth:
  "list_all (is_briefing_item env) cfg \<Longrightarrow> i < length cfg \<Longrightarrow>
   \<exists>d. cfg ! i = PyDict d \<and>
       outputs env cfg n t ! i =
         item_output env d (n + length (filter (draws_uuid env) (take i cfg))) (t + i)"
proof (induction cfg arbitrary: n t i)
  case Nil
  then show ?case by simp
next
  case (Cons item rest)
  from Cons.prems obtain d where item: "item = PyDict d"
    by (cases item) (simp_all add: is_briefing_item_def)
  from Cons.prems have others: "list_all (is_briefing_item env) rest"
    by simp
  show ?case
  proof (cases i)
    case 0
    then show ?thesis by (simp add: item)
  next
    case (Suc j)
    with Cons.prems have j: "j < length rest" by simp
    let ?n = "if configured d (CONF_UID env) then n else Suc n"
    from Cons.IH [OF others j, of ?n "Suc t"] Suc show ?thesis
      by (auto simp add: item draws_uuid_dict)
  qed
qed

lemma text_value_configured:
  "renders env d k \<Longrightarrow> (\<exists>v. text_value env d k = Some v) \<longleftrightarrow> configured d k"
  by (auto simp add: renders_def text_value_def configured_def
      split: option.splits py_value.splits sum.splits)

lemma item_output_lookup:
  assumes "distinct [ATTR_TITLE_TEXT env, ATTR_MAIN_TEXT env, ATTR_UID env,
                     ATTR_STREAM_URL env, ATTR_REDIRECTION_URL env, ATTR_UPDATE_DATE env]"
  shows "map_of (item_output env d n t) (ATTR_UID env) = Some (uid_value env d n)"
    and "map_of (item_output env d n t) (ATTR_UPDATE_DATE env)
           = Some (PyStr (utcnow_strftime env t (DATE_FORMAT env)))"
    and "map_of (item_output env d n t) (ATTR_TITLE_TEXT env) = text_value env d (CONF_TITLE env)"
    and "map_of (item_output env d n t) (ATTR_MAIN_TEXT env) = text_value env d (CONF_TEXT env)"
    and "map_of (item_output env d n t) (ATTR_STREAM_URL env) = text_value env d (CONF_AUDIO env)"
    and "map_of (item_output env d n t) (ATTR_REDIRECTION_URL env)
           = text_value env d (CONF_DISPLAY_URL env)"
  using assms by (auto simp add: item_output_def map_of_put AList.update_conv')

text \<open>
  C10, as stated, fails for a list of dictionaries one of whose templates does not
  render: \<open>async_render\<close> raises, nothing catches the exception, and
  \<open>_generate_briefing\<close> returns no list at all, not even the output of the item
  before.
\<close>

theorem generate_briefing_raises_counterexample:
  "fst (generate_briefing demo_alexa_env
          [PyDict [(''title'', PyStr ''Hello'')],
           PyDict [(''text'', PyTemplate ''{{ 1 / 0 }}'')]] demo_world)
     = Inl (Propagated ''TemplateError'')"
  by (simp add: generate_briefing_def process_briefing_item_def add_text_field_def add_uid_def
      py_get_def demo_alexa_env_def)

text \<open>
  C10, amended. For a list of briefing items (dictionaries whose templates, under the
  four keys of the text fields, render without an exception), with the six attribute
  keys pairwise distinct, \<open>_generate_briefing\<close> returns a list of the same length whose
  \<open>i\<close>-th output belongs to the \<open>i\<close>-th item: its UID is the item's configured uid, or
  else the UUID drawn for it (one draw for each item without a uid, in order); its
  update date is the \<open>i\<close>-th reading of the clock; it has the title, main text, stream
  URL and redirection URL attribute exactly when the item's corresponding key is
  present with a value other than None; and the attribute's value is then the
  rendered text of a template and the configured value itself otherwise.
\<close>

theorem generate_briefing_items:
  assumes "distinct [ATTR_TITLE_TEXT env, ATTR_MAIN_TEXT env, ATTR_UID env,
                     ATTR_STREAM_URL env, ATTR_REDIRECTION_URL env, ATTR_UPDATE_DATE env]"
    and "list_all (is_briefing_item env) briefing_config"
  shows "\<exists>briefing w'.
           generate_briefing env briefing_config w = (Inr briefing, w') \<and>
           length briefing = length briefing_config \<and>
           (\<forall>i<length briefing_config. \<exists>d. briefing_config ! i = PyDict d \<and>
              map_of (briefing ! i) (ATTR_UID env) =
                Some (if configured d (CONF_UID env) then the (map_of d (CONF_UID env))
                      else PyStr (uuid4 env
                             (uuid_calls w +
                              length (filter (draws_uuid env) (take i briefing_config))))) \<and>
              map_of (briefing ! i) (ATTR_UPDATE_DATE env) =
                Some (PyStr (utcnow_strftime env (clock_calls w + i) (DATE_FORMAT env))) \<and>
              (map_of (briefing ! i) (ATTR_TITLE_TEXT env) \<noteq> None
                 \<longleftrightarrow> configured d (CONF_TITLE env)) \<and>
              (map_of (briefing ! i) (ATTR_MAIN_TEXT env) \<noteq> None
                 \<longleftrightarrow> configured d (CONF_TEXT env)) \<and>
              (map_of (briefing ! i) (ATTR_STREAM_URL env) \<noteq> None
                 \<longleftrightarrow> configured d (CONF_AUDIO env)) \<and>
              (map_of (briefing ! i) (ATTR_REDIRECTION_URL env) \<noteq> None
                 \<longleftrightarrow> configured d (CONF_DISPLAY_URL env)) \<and>
              map_of (briefing ! i) (ATTR_TITLE_TEXT env) = text_value env d (CONF_TITLE env) \<and>
              map_of (briefing ! i) (ATTR_MAIN_TEXT env) = text_value env d (CONF_TEXT env) \<and>
              map_of (briefing ! i) (ATTR_STREAM_URL env) = text_value env d (CONF_AUDIO env) \<and>
              map_of (briefing ! i) (ATTR_REDIRECTION_URL env) = text_value env d (CONF_DISPLAY_URL env))"
proof -
  let ?outs = "outputs env briefing_config (uuid_calls w) (clock_calls w)"
  have run: "generate_briefing env briefing_config w =
      (Inr ?outs,
       w\<lparr>uuid_calls := uuid_calls w + length (filter (draws_uuid env) briefing_config),
         clock_calls := clock_calls w + length briefing_config\<rparr>)"
    using generate_loop_outputs [OF assms(2), of "[]" w] by (simp add: generate_briefing_def)
  have len: "length ?outs = length briefing_config"
    by (rule outputs_length [OF assms(2)])
  have each: "\<exists>d. briefing_config ! i = PyDict d \<and>
              map_of (?outs ! i) (ATTR_UID env) =
                Some (if configured d (CONF_UID env) then the (map_of d (CONF_UID env))
                      else PyStr (uuid4 env
                             (uuid_calls w +
                              length (filter (draws_uuid env) (take i briefing_config))))) \<and>
              map_of (?outs ! i) (ATTR_UPDATE_DATE env) =
                Some (PyStr (utcnow_strftime env (clock_calls w + i) (DATE_FORMAT env))) \<and>
              (map_of (?outs ! i) (ATTR_TITLE_TEXT env) \<noteq> None
                 \<longleftrightarrow> configured d (CONF_TITLE env)) \<and>
              (map_of (?outs ! i) (ATTR_MAIN_TEXT env) \<noteq> None
                 \<longleftrightarrow> configured d (CONF_TEXT env)) \<and>
              (map_of (?outs ! i) (ATTR_STREAM_URL env) \<noteq> None
                 \<longleftrightarrow> configured d (CONF_AUDIO env)) \<and>
              (map_of (?outs ! i) (ATTR_REDIRECTION_URL env) \<noteq> None
                 \<longleftrightarrow> configured d (CONF_DISPLAY_URL env)) \<and>
              map_of (?outs ! i) (ATTR_TITLE_TEXT env) = text_value env d (CONF_TITLE env) \<and>
              map_of (?outs ! i) (ATTR_MAIN_TEXT env) = text_value env d (CONF_TEXT env) \<and>
              map_of (?outs ! i) (ATTR_STREAM_URL env) = text_value env d (CONF_AUDIO env) \<and>
              map_of (?outs ! i) (ATTR_REDIRECTION_URL env) = text_value env d (CONF_DISPLAY_URL env)"
    if i: "i < length briefing_config" for i
  proof -
    from outputs_nth [OF assms(2) i, of "uuid_calls w" "clock_calls w"]
    obtain d where d: "briefing_config ! i = PyDict d"
      and out: "?outs ! i =
         item_output env d (uuid_calls w + length (filter (draws_uuid env) (take i briefing_config)))
           (clock_calls w + i)"
      by blast
    from assms(2) i have "is_briefing_item env (briefing_config ! i)"
      by (simp add: list_all_length)
    then have r: "renders env d (CONF_TITLE env)" "renders env d (CONF_TEXT env)"
      "renders env d (CONF_AUDIO env)" "renders env d (CONF_DISPLAY_URL env)"
      by (simp_all add: d is_briefing_item_def)
    show ?thesis
      using d
      by (simp add: out item_output_lookup [OF assms(1)] text_value_configured [OF r(1)]
          text_value_configured [OF r(2)] text_value_configured [OF r(3)]
          text_value_configured [OF r(4)] uid_value_def)
  qed
  from run len each show ?thesis by blast
qed

text \<open>
  A briefing of two items, the first with a title and a templated text and no uid, the
  second with a uid, an audio URL and a title that is None.
\<close>

theorem generate_briefing_items_witness:
  "\<exists>briefing w'.
     generate_briefing demo_alexa_env demo_news demo_world = (Inr briefing, w') \<and>
     length briefing = 2 \<and>
     map_of (briefing ! 0) ''uid'' = Some (PyStr ''uuuu'') \<and>
     map_of (briefing ! 1) ''uid'' = Some (PyStr ''item-2'') \<and>
     map_of (briefing ! 0) ''updateDate'' = Some (PyStr ''tttttt'') \<and>
     map_of (briefing ! 1) ''updateDate'' = Some (PyStr ''ttttttt'') \<and>
     map_of (briefing ! 0) ''titleText'' = Some (PyStr ''Hello'') \<and>
     map_of (briefing ! 0) ''mainText'' = Some (PyStr ''Good morning'') \<and>
     map_of (briefing ! 0) ''streamUrl'' = None \<and>
     map_of (briefing ! 1) ''titleText'' = None \<and>
     map_of (briefing ! 1) ''streamUrl'' = Some (PyStr ''http://example.org/a.mp3'') \<and>
     map_of (briefing ! 1) ''redirectionUrl'' = None"
proof -
  have keys: "distinct [ATTR_TITLE_TEXT demo_alexa_env, ATTR_MAIN_TEXT demo_alexa_env,
      ATTR_UID demo_alexa_env, ATTR_STREAM_URL demo_alexa_env,
      ATTR_REDIRECTION_URL demo_alexa_env, ATTR_UPDATE_DATE demo_alexa_env]"
    by (simp add: demo_alexa_env_def)
  have items: "list_all (is_briefing_item demo_alexa_env) demo_news"
    by (simp add: demo_news_def is_briefing_item_def renders_def demo_alexa_env_def)
  have two: "length demo_news = 2"
    by (simp add: demo_news_def)
  from generate_briefing_items [OF keys items, of demo_world]
  obtain briefing w' where run:
      "generate_briefing demo_alexa_env demo_news demo_world = (Inr briefing, w')"
    and len: "length briefing = length demo_news"
    and each: "\<And>i. i < length demo_news \<Longrightarrow> \<exists>d. demo_news ! i = PyDict d \<and>
        map_of (briefing ! i) (ATTR_UID demo_alexa_env) =
          Some (if configured d (CONF_UID demo_alexa_env) then the (map_of d (CONF_UID demo_alexa_env))
                else PyStr (uuid4 demo_alexa_env
                       (uuid_calls demo_world +
                        length (filter (draws_uuid demo_alexa_env) (take i demo_news))))) \<and>
        map_of (briefing ! i) (ATTR_UPDATE_DATE demo_alexa_env) =
          Some (PyStr (utcnow_strftime demo_alexa_env (clock_calls demo_world + i) (DATE_FORMAT demo_alexa_env))) \<and>
        (map_of (briefing ! i) (ATTR_TITLE_TEXT demo_alexa_env) \<noteq> None
           \<longleftrightarrow> configured d (CONF_TITLE demo_alexa_env)) \<and>
        (map_of (briefing ! i) (ATTR_MAIN_TEXT demo_alexa_env) \<noteq> None
           \<longleftrightarrow> configured d (CONF_TEXT demo_alexa_env)) \<and>
        (map_of (briefing ! i) (ATTR_STREAM_URL demo_alexa_env) \<noteq> None
           \<longleftrightarrow> configured d (CONF_AUDIO demo_alexa_env)) \<and>
        (map_of (briefing ! i) (ATTR_REDIRECTION_URL demo_alexa_env) \<noteq> None
           \<longleftrightarrow> configured d (CONF_DISPLAY_URL demo_alexa_env)) \<and>
        map_of (briefing ! i) (ATTR_TITLE_TEXT demo_alexa_env) = text_value demo_alexa_env d (CONF_TITLE demo_alexa_env) \<and>
        map_of (briefing ! i) (ATTR_MAIN_TEXT demo_alexa_env) = text_value demo_alexa_env d (CONF_TEXT demo_alexa_env) \<and>
        map_of (briefing ! i) (ATTR_STREAM_URL demo_alexa_env) = text_value demo_alexa_env d (CONF_AUDIO demo_alexa_env) \<and>
        map_of (briefing ! i) (ATTR_REDIRECTION_URL demo_alexa_env) = text_value demo_alexa_env d (CONF_DISPLAY_URL demo_alexa_env)"
    by blast
  have first: "map_of (briefing ! 0) ''uid'' = Some (PyStr ''uuuu'') \<and>
     map_of (briefing ! 0) ''updateDate'' = Some (PyStr ''tttttt'') \<and>
     map_of (briefing ! 0) ''titleText'' = Some (PyStr ''Hello'') \<and>
     map_of (briefing ! 0) ''mainText'' = Some (PyStr ''Good morning'') \<and>
     map_of (briefing ! 0) ''streamUrl'' = None"
    using each [of 0]
    by (simp add: demo_news_def demo_alexa_env_def demo_world_def configured_def text_value_def
        eval_nat_numeral)
  have second: "map_of (briefing ! 1) ''uid'' = Some (PyStr ''item-2'') \<and>
     map_of (briefing ! 1) ''updateDate'' = Some (PyStr ''ttttttt'') \<and>
     map_of (briefing ! 1) ''titleText'' = None \<and>
     map_of (briefing ! 1) ''streamUrl'' = Some (PyStr ''http://example.org/a.mp3'') \<and>
     map_of (briefing ! 1) ''redirectionUrl'' = None"
    using each [of 1]
    by (simp add: demo_news_def demo_alexa_env_def demo_world_def configured_def text_value_def
        eval_nat_numeral)
  from run len two first second show ?thesis
    by simp
qed

end
